theory Spec2Isabelle
  imports Main "HOL-Library.AList"
begin

section \<open>Python values, exceptions and the built-ins the toolbox uses\<close>

text \<open>
  The first version of the toolbox (\<^verbatim>\<open>notebook_v0.py\<close>) works on the result of
  \<^verbatim>\<open>json.load\<close>: nested dicts, lists, strings, integers, booleans and \<^verbatim>\<open>None\<close>.
  A dict is an association list read with \<open>map_of\<close> (the first binding of a key is the
  one a lookup sees) and written with \<open>AList.update\<close>. Strings are byte lists. Floats do
  not occur in the notebook format and are left out.
\<close>

datatype json =
    JNull
  | JBool bool
  | JInt int
  | JStr string
  | JList "json list"
  | JDict "(string \<times> json) list"

datatype py_error = KeyError | IndexError | TypeError | ValueError | NameError | SyntaxError

type_synonym 'a result = "py_error + 'a"

text \<open>Sequencing: an exception raised by the first step is the result.\<close>

definition and_then :: "'a result \<Rightarrow> ('a \<Rightarrow> 'b result) \<Rightarrow> 'b result" where
  "and_then m f = (case m of Inl e \<Rightarrow> Inl e | Inr x \<Rightarrow> f x)"

text \<open>A \<^verbatim>\<open>for\<close> loop whose body rewrites each element (or raises).\<close>

fun for_each :: "('a \<Rightarrow> 'b result) \<Rightarrow> 'a list \<Rightarrow> 'b list result" where
  "for_each f [] = Inr []"
| "for_each f (x # xs) =
     and_then (f x) (\<lambda>y. and_then (for_each f xs) (\<lambda>ys. Inr (y # ys)))"

text \<open>A \<^verbatim>\<open>for\<close> loop whose body updates an accumulator (or raises).\<close>

fun for_acc :: "('s \<Rightarrow> 'a \<Rightarrow> 's result) \<Rightarrow> 's \<Rightarrow> 'a list \<Rightarrow> 's result" where
  "for_acc f s [] = Inr s"
| "for_acc f s (x # xs) = and_then (f s x) (\<lambda>s'. for_acc f s' xs)"

text \<open>\<^verbatim>\<open>obj[key]\<close> with a string key: only a dict accepts it.\<close>

fun getitem_key :: "json \<Rightarrow> string \<Rightarrow> json result" where
  "getitem_key (JDict kvs) k = (case map_of kvs k of None \<Rightarrow> Inl KeyError | Some v \<Rightarrow> Inr v)"
| "getitem_key _ k = Inl TypeError"

text \<open>\<^verbatim>\<open>xs[i]\<close> on a sequence: negative indices count from the end, out of range raises.\<close>

definition seq_index :: "'a list \<Rightarrow> int \<Rightarrow> 'a result" where
  "seq_index xs i =
     (if 0 \<le> i \<and> i < int (length xs) then Inr (xs ! nat i)
      else if i < 0 \<and> - int (length xs) \<le> i then Inr (xs ! nat (int (length xs) + i))
      else Inl IndexError)"

fun getitem_idx :: "json \<Rightarrow> int \<Rightarrow> json result" where
  "getitem_idx (JList xs) i = seq_index xs i"
| "getitem_idx (JStr s) i = and_then (seq_index s i) (\<lambda>c. Inr (JStr [c]))"
| "getitem_idx (JDict kvs) i = Inl KeyError"
| "getitem_idx _ i = Inl TypeError"

text \<open>\<^verbatim>\<open>obj[key] = value\<close> with a string key.\<close>

fun setitem :: "json \<Rightarrow> string \<Rightarrow> json \<Rightarrow> json result" where
  "setitem (JDict kvs) k v = Inr (JDict (AList.update k v kvs))"
| "setitem _ k v = Inl TypeError"

text \<open>
  What \<^verbatim>\<open>for x in obj\<close> visits: the elements of a list, the characters of a string,
  the keys of a dict; anything else is not iterable.
\<close>

fun py_iter :: "json \<Rightarrow> json list result" where
  "py_iter (JList xs) = Inr xs"
| "py_iter (JStr s) = Inr (map (\<lambda>c. JStr [c]) s)"
| "py_iter (JDict kvs) = Inr (map (\<lambda>kv. JStr (fst kv)) kvs)"
| "py_iter _ = Inl TypeError"

text \<open>\<^verbatim>\<open>len(obj)\<close>.\<close>

fun py_len :: "json \<Rightarrow> int result" where
  "py_len (JList xs) = Inr (int (length xs))"
| "py_len (JStr s) = Inr (int (length s))"
| "py_len (JDict kvs) = Inr (int (length kvs))"
| "py_len _ = Inl TypeError"

text \<open>\<^verbatim>\<open>sub in s\<close> on strings: \<open>sub\<close> occurs in \<open>s\<close> as a contiguous piece.\<close>

fun str_in :: "string \<Rightarrow> string \<Rightarrow> bool" where
  "str_in sub [] = (sub = [])"
| "str_in sub (c # cs) = (take (length sub) (c # cs) = sub \<or> str_in sub cs)"

text \<open>
  \<^verbatim>\<open>key in obj\<close> with a string key: a key of a dict, a piece of a string, an element
  of a list.
\<close>

fun py_contains :: "string \<Rightarrow> json \<Rightarrow> bool result" where
  "py_contains k (JDict kvs) = Inr (map_of kvs k \<noteq> None)"
| "py_contains k (JStr s) = Inr (str_in k s)"
| "py_contains k (JList xs) = Inr (List.member xs (JStr k))"
| "py_contains k _ = Inl TypeError"

text \<open>\<^verbatim>\<open>ans.pop()\<close>, keeping the list: popping from an empty list raises.\<close>

definition list_pop :: "'a list \<Rightarrow> 'a list result" where
  "list_pop xs = (if xs = [] then Inl IndexError else Inr (butlast xs))"

text \<open>\<^verbatim>\<open>"".join(ans)\<close>: every item must be a string.\<close>

fun str_join :: "json list \<Rightarrow> string result" where
  "str_join [] = Inr []"
| "str_join (JStr s # xs) = and_then (str_join xs) (\<lambda>r. Inr (s @ r))"
| "str_join (_ # xs) = Inl TypeError"

text \<open>
  \<^verbatim>\<open>str(n)\<close> for an integer: decimal digits, most significant first, with a minus sign
  for a negative number.
\<close>

definition digit_char :: "nat \<Rightarrow> char" where
  "digit_char d = ''0123456789'' ! d"

function str_nat :: "nat \<Rightarrow> string" where
  "str_nat n = (if n < 10 then [digit_char n] else str_nat (n div 10) @ [digit_char (n mod 10)])"
  by pat_completeness auto
termination
  by (relation "measure id") auto

declare str_nat.simps [simp del]

definition str_int :: "int \<Rightarrow> string" where
  "str_int i = (if i < 0 then CHR ''-'' # str_nat (nat (- i)) else str_nat (nat i))"

text \<open>
  \<^verbatim>\<open>str(v)\<close>, which is also what an f-string writes for \<^verbatim>\<open>{v}\<close>. Python prints a
  list or a dict through \<^verbatim>\<open>repr\<close> of its items; that printer is the parameter
  \<open>rp\<close>.
\<close>

definition py_str :: "(json \<Rightarrow> string) \<Rightarrow> json \<Rightarrow> string" where
  "py_str rp v =
     (case v of
        JStr s \<Rightarrow> s
      | JInt i \<Rightarrow> str_int i
      | JNull \<Rightarrow> ''None''
      | JBool b \<Rightarrow> (if b then ''True'' else ''False'')
      | _ \<Rightarrow> rp v)"

text \<open>
  \<^verbatim>\<open>int(s)\<close> on a string: surrounding ASCII whitespace is dropped, one sign is
  allowed, then decimal digits with single underscores between them; anything else is a
  \<^verbatim>\<open>ValueError\<close>. (Python also accepts non-ASCII decimal digits, which a byte string
  does not show as single characters; they are rejected here.)
\<close>

definition is_space :: "char \<Rightarrow> bool" where
  "is_space c = (c \<in> set [CHR '' '', CHR 0x09, CHR 0x0A, CHR 0x0B, CHR 0x0C, CHR 0x0D])"

definition is_digit :: "char \<Rightarrow> bool" where
  "is_digit c = (c \<in> set ''0123456789'')"

definition digit_val :: "char \<Rightarrow> nat" where
  "digit_val c = length (takeWhile (\<lambda>d. d \<noteq> c) ''0123456789'')"

definition strip :: "string \<Rightarrow> string" where
  "strip s = rev (dropWhile is_space (rev (dropWhile is_space s)))"

fun int_body_ok :: "string \<Rightarrow> bool" where
  "int_body_ok [] = False"
| "int_body_ok [c] = is_digit c"
| "int_body_ok (c # d # cs) =
     (is_digit c \<and> (if d = CHR ''_'' then int_body_ok cs else int_body_ok (d # cs)))"

definition digits_val :: "string \<Rightarrow> nat" where
  "digits_val ds = foldl (\<lambda>acc c. 10 * acc + digit_val c) 0 ds"

definition py_int :: "string \<Rightarrow> int result" where
  "py_int s =
     (let t = strip s;
          neg = (t \<noteq> [] \<and> hd t = CHR ''-'');
          body = (if t \<noteq> [] \<and> (hd t = CHR ''-'' \<or> hd t = CHR ''+'') then tl t else t)
      in if int_body_ok body
         then Inr ((if neg then - 1 else 1) * int (digits_val (filter is_digit body)))
         else Inl ValueError)"

text \<open>\<^verbatim>\<open>s.split(sep)\<close> for a separator of one character.\<close>

fun split_on :: "char \<Rightarrow> string \<Rightarrow> string list" where
  "split_on sep [] = [[]]"
| "split_on sep (c # cs) =
     (if c = sep then [] # split_on sep cs
      else (case split_on sep cs of [] \<Rightarrow> [[c]] | p # ps \<Rightarrow> (c # p) # ps))"

text \<open>
  \<^verbatim>\<open>f.readlines()\<close> on the text of a file: the text is cut after every newline, each
  line keeps its newline, and a last line without one is a line too. (Text mode also
  turns carriage returns into newlines; the texts handled here have none.)
\<close>

fun readlines :: "string \<Rightarrow> string list" where
  "readlines [] = []"
| "readlines (c # cs) =
     (if c = CHR 0x0A then [c] # readlines cs
      else (case readlines cs of [] \<Rightarrow> [[c]] | l # ls \<Rightarrow> (c # l) # ls))"

section \<open>notebook_v0: clear_outputs\<close>

text \<open>
  \<^verbatim>\<open>
  for dic in ipynb['cells']:
      if dic['cell_type'] == 'code':
          dic['execution_count'] = None
          dic['outputs'] = []
  return ipynb
  \<close>
  The loop mutates the cell dicts in place. In the model the body returns the new cell
  and the rewritten cells are stored back into the list object under \<^verbatim>\<open>'cells'\<close>.
  When \<^verbatim>\<open>ipynb['cells']\<close> is a string or a dict the loop variable is a fresh string,
  nothing reachable from \<^verbatim>\<open>ipynb\<close> is written, and the notebook is returned as it was.
  Mutations made before an exception are not observable through the (absent) result.
\<close>

definition clear_cell :: "json \<Rightarrow> json result" where
  "clear_cell dic =
     and_then (getitem_key dic ''cell_type'') (\<lambda>t.
       if t = JStr ''code''
       then and_then (setitem dic ''execution_count'' JNull) (\<lambda>d.
              setitem d ''outputs'' (JList []))
       else Inr dic)"

definition store_cells :: "json \<Rightarrow> json \<Rightarrow> json list \<Rightarrow> json" where
  "store_cells ipynb cells dics =
     (case (ipynb, cells) of
        (JDict kvs, JList _) \<Rightarrow> JDict (AList.update ''cells'' (JList dics) kvs)
      | _ \<Rightarrow> ipynb)"

definition clear_outputs :: "json \<Rightarrow> json result" where
  "clear_outputs ipynb =
     and_then (getitem_key ipynb ''cells'') (\<lambda>cells.
     and_then (py_iter cells) (\<lambda>dics.
     and_then (for_each clear_cell dics) (\<lambda>dics'.
       Inr (store_cells ipynb cells dics'))))"

text \<open>The code cells of a notebook dict, for stating what clearing achieves.\<close>

definition is_code_cell :: "json \<Rightarrow> bool" where
  "is_code_cell dic = (getitem_key dic ''cell_type'' = Inr (JStr ''code''))"

definition cell_dicts :: "json \<Rightarrow> json list" where
  "cell_dicts ipynb =
     (case getitem_key ipynb ''cells'' of Inr (JList ds) \<Rightarrow> ds | _ \<Rightarrow> [])"

definition hello_world :: json where
  "hello_world = JDict
     [(''cells'', JList
        [JDict [(''cell_type'', JStr ''markdown''), (''id'', JStr ''a9541506''),
                (''metadata'', JDict []),
                (''source'', JList [JStr ''Hello world!\<newline>'', JStr ''============\<newline>'',
                                    JStr ''Print `Hello world!`:''])],
         JDict [(''cell_type'', JStr ''code''), (''execution_count'', JInt 1),
                (''id'', JStr ''b777420a''), (''metadata'', JDict []),
                (''outputs'', JList [JDict [(''name'', JStr ''stdout''),
                                            (''output_type'', JStr ''stream''),
                                            (''text'', JList [JStr ''Hello world!\<newline>''])]]),
                (''source'', JList [JStr ''print(\"Hello world!\")''])],
         JDict [(''cell_type'', JStr ''markdown''), (''id'', JStr ''a23ab5ac''),
                (''metadata'', JDict []),
                (''source'', JList [JStr ''Goodbye!''])]]),
      (''metadata'', JDict []),
      (''nbformat'', JInt 4),
      (''nbformat_minor'', JInt 5)]"


definition hello_world_cleared :: json where
  "hello_world_cleared = JDict
     [(''cells'', JList
        [JDict [(''cell_type'', JStr ''markdown''), (''id'', JStr ''a9541506''),
                (''metadata'', JDict []),
                (''source'', JList [JStr ''Hello world!\<newline>'', JStr ''============\<newline>'',
                                    JStr ''Print `Hello world!`:''])],
         JDict [(''cell_type'', JStr ''code''), (''execution_count'', JNull),
                (''id'', JStr ''b777420a''), (''metadata'', JDict []),
                (''outputs'', JList []),
                (''source'', JList [JStr ''print(\"Hello world!\")''])],
         JDict [(''cell_type'', JStr ''markdown''), (''id'', JStr ''a23ab5ac''),
                (''metadata'', JDict []),
                (''source'', JList [JStr ''Goodbye!''])]]),
      (''metadata'', JDict []),
      (''nbformat'', JInt 4),
      (''nbformat_minor'', JInt 5)]"

section \<open>notebook_v0: to_percent\<close>

text \<open>
  \<^verbatim>\<open>
  ans = []
  for dic in ipynb['cells']:
      if dic['cell_type'] == 'markdown':
          ans.append('# %% [markdown]\\n')
          for elem in dic['source']:
              ans.append('# ')
              ans.append(elem)
      elif dic['cell_type'] == 'code':
          ans.append('# %%\\n')
          for elem in dic['source']:
              ans.append(elem)
      ans.append('\\n')
      ans.append('\\n')
  ans.pop()
  return "".join(ans)
  \<close>
\<close>

definition percent_cell :: "json list \<Rightarrow> json \<Rightarrow> json list result" where
  "percent_cell ans dic =
     and_then (getitem_key dic ''cell_type'') (\<lambda>t.
     and_then
       (if t = JStr ''markdown'' then
          and_then (getitem_key dic ''source'') (\<lambda>src.
          and_then (py_iter src) (\<lambda>elems.
            Inr (ans @ [JStr ''# %% [markdown]\<newline>''] @ concat (map (\<lambda>elem. [JStr ''# '', elem]) elems))))
        else if t = JStr ''code'' then
          and_then (getitem_key dic ''source'') (\<lambda>src.
          and_then (py_iter src) (\<lambda>elems.
            Inr (ans @ [JStr ''# %%\<newline>''] @ elems)))
        else Inr ans)
       (\<lambda>ans'. Inr (ans' @ [JStr ''\<newline>'', JStr ''\<newline>''])))"

definition to_percent :: "json \<Rightarrow> string result" where
  "to_percent ipynb =
     and_then (getitem_key ipynb ''cells'') (\<lambda>cells.
     and_then (py_iter cells) (\<lambda>dics.
     and_then (for_acc percent_cell [] dics) (\<lambda>ans.
     and_then (list_pop ans) str_join)))"

section \<open>notebook_v0: get_stream, get_exceptions, get_images\<close>

text \<open>\<^verbatim>\<open>dic['outputs'][0]\<close>, the only output the three extractors look at.\<close>

definition first_output :: "json \<Rightarrow> json result" where
  "first_output dic = and_then (getitem_key dic ''outputs'') (\<lambda>os. getitem_idx os 0)"

text \<open>
  \<^verbatim>\<open>
  if stdout == True and dic['outputs'][0]['name'] == 'stdout':
      output2.append(dic['outputs'][0]['text'][0])
  \<close>
  and the same for \<^verbatim>\<open>stderr\<close>: \<open>flag\<close> is the selection flag, \<open>nm\<close> the stream name.
\<close>

definition stream_pick :: "bool \<Rightarrow> string \<Rightarrow> json \<Rightarrow> json list \<Rightarrow> json list result" where
  "stream_pick flag nm dic output2 =
     (if flag then
        and_then (first_output dic) (\<lambda>out.
        and_then (getitem_key out ''name'') (\<lambda>n.
          if n = JStr nm then
            and_then (first_output dic) (\<lambda>out'.
            and_then (getitem_key out' ''text'') (\<lambda>txt.
            and_then (getitem_idx txt 0) (\<lambda>line. Inr (output2 @ [line]))))
          else Inr output2))
      else Inr output2)"

definition stream_cell :: "bool \<Rightarrow> bool \<Rightarrow> json list \<Rightarrow> json \<Rightarrow> json list result" where
  "stream_cell stdout stderr output2 dic =
     and_then (getitem_key dic ''cell_type'') (\<lambda>t.
       if t = JStr ''code'' then
         and_then (stream_pick stdout ''stdout'' dic output2) (stream_pick stderr ''stderr'' dic)
       else Inr output2)"

definition get_stream :: "(json \<Rightarrow> string) \<Rightarrow> json \<Rightarrow> bool \<Rightarrow> bool \<Rightarrow> string result" where
  "get_stream rp ipynb stdout stderr =
     and_then (getitem_key ipynb ''cells'') (\<lambda>cells.
     and_then (py_iter cells) (\<lambda>dics.
     and_then (for_acc (stream_cell stdout stderr) [] dics) (\<lambda>output2.
       Inr (concat (map (py_str rp) output2)))))"

text \<open>
  \<^verbatim>\<open>
  if dic['outputs'][0]['output_type'] == 'error':
      excep.append(eval("".join([dic['outputs'][0]['ename'], "(",
                                 repr(dic['outputs'][0]['evalue']), ")"])))
  \<close>
  Building the exception object (\<^verbatim>\<open>join\<close>, \<^verbatim>\<open>repr\<close> and \<^verbatim>\<open>eval\<close> of the
  resulting expression) is the parameter \<open>mk\<close>, from the two fields to the value or to
  whatever \<^verbatim>\<open>eval\<close> raises.
\<close>

definition exception_cell ::
  "(json \<Rightarrow> json \<Rightarrow> 'e result) \<Rightarrow> 'e list \<Rightarrow> json \<Rightarrow> 'e list result" where
  "exception_cell mk excep dic =
     and_then (getitem_key dic ''cell_type'') (\<lambda>t.
       if t = JStr ''code'' then
         and_then (first_output dic) (\<lambda>out.
         and_then (getitem_key out ''output_type'') (\<lambda>ot.
           if ot = JStr ''error'' then
             and_then (getitem_key out ''ename'') (\<lambda>ename.
             and_then (getitem_key out ''evalue'') (\<lambda>evalue.
             and_then (mk ename evalue) (\<lambda>x. Inr (excep @ [x]))))
           else Inr excep))
       else Inr excep)"

definition get_exceptions :: "(json \<Rightarrow> json \<Rightarrow> 'e result) \<Rightarrow> json \<Rightarrow> 'e list result" where
  "get_exceptions mk ipynb =
     and_then (getitem_key ipynb ''cells'') (\<lambda>cells.
     and_then (py_iter cells) (\<lambda>dics.
       for_acc (exception_cell mk) [] dics))"

text \<open>
  \<^verbatim>\<open>
  if dic['cell_type'] == 'code' and len(dic['outputs']) != 0 \\
          and 'image/png' in dic['outputs'][0]['data']:
      image = PIL.Image.open(io.BytesIO(base64.b64decode(
                  dic['outputs'][0]['data']['image/png'])))
      answer.append(np.array(image))
  \<close>
  Base64 and PNG decoding (\<^verbatim>\<open>base64\<close>, \<^verbatim>\<open>PIL\<close>, \<^verbatim>\<open>numpy\<close>) are libraries outside
  the repository: the parameter \<open>decode\<close> maps the payload to the pixel array or to the
  exception the libraries raise.
\<close>

definition image_cell :: "(json \<Rightarrow> 'img result) \<Rightarrow> 'img list \<Rightarrow> json \<Rightarrow> 'img list result" where
  "image_cell decode answer dic =
     and_then (getitem_key dic ''cell_type'') (\<lambda>t.
       if t = JStr ''code'' then
         and_then (getitem_key dic ''outputs'') (\<lambda>os.
         and_then (py_len os) (\<lambda>n.
           if n \<noteq> 0 then
             and_then (first_output dic) (\<lambda>out.
             and_then (getitem_key out ''data'') (\<lambda>data.
             and_then (py_contains ''image/png'' data) (\<lambda>present.
               if present then
                 and_then (getitem_key data ''image/png'') (\<lambda>payload.
                 and_then (decode payload) (\<lambda>arr. Inr (answer @ [arr])))
               else Inr answer)))
           else Inr answer))
       else Inr answer)"

definition get_images :: "(json \<Rightarrow> 'img result) \<Rightarrow> json \<Rightarrow> 'img list result" where
  "get_images decode ipynb =
     and_then (getitem_key ipynb ''cells'') (\<lambda>cells.
     and_then (py_iter cells) (\<lambda>dics.
       for_acc (image_cell decode) [] dics))"

section \<open>Sample notebooks\<close>

text \<open>\<^verbatim>\<open>samples/minimal.ipynb\<close>, as the docstring of \<^verbatim>\<open>load_ipynb\<close> prints it.\<close>

definition minimal :: json where
  "minimal = JDict [(''cells'', JList []), (''metadata'', JDict []),
                    (''nbformat'', JInt 4), (''nbformat_minor'', JInt 5)]"

text \<open>A notebook dict around a list of cell dicts, format 4.5.\<close>

definition ipynb_of :: "json list \<Rightarrow> json" where
  "ipynb_of cells = JDict [(''cells'', JList cells), (''metadata'', JDict []),
                           (''nbformat'', JInt 4), (''nbformat_minor'', JInt 5)]"

definition markdown_dict :: "string \<Rightarrow> string list \<Rightarrow> json" where
  "markdown_dict i src = JDict [(''cell_type'', JStr ''markdown''), (''id'', JStr i),
                                (''metadata'', JDict []), (''source'', JList (map JStr src))]"

definition code_dict :: "string \<Rightarrow> string list \<Rightarrow> json list \<Rightarrow> json" where
  "code_dict i src outs = JDict [(''cell_type'', JStr ''code''), (''execution_count'', JInt 1),
                                 (''id'', JStr i), (''metadata'', JDict []),
                                 (''outputs'', JList outs), (''source'', JList (map JStr src))]"

definition stream_output :: "string \<Rightarrow> string list \<Rightarrow> json" where
  "stream_output nm txt = JDict [(''name'', JStr nm), (''output_type'', JStr ''stream''),
                                 (''text'', JList (map JStr txt))]"

definition error_output :: "string \<Rightarrow> string \<Rightarrow> json" where
  "error_output ename evalue = JDict [(''ename'', JStr ename), (''evalue'', JStr evalue),
                                      (''output_type'', JStr ''error''), (''traceback'', JList [])]"

definition image_output :: "string \<Rightarrow> json" where
  "image_output payload = JDict [(''data'', JDict [(''image/png'', JStr payload)]),
                                 (''metadata'', JDict []), (''output_type'', JStr ''display_data'')]"

text \<open>The two-cell notebook of the percent-format scenario.\<close>

definition hi_x1 :: json where
  "hi_x1 = ipynb_of [markdown_dict ''a'' [''Hi\<newline>''], code_dict ''b'' [''x=1''] []]"

text \<open>One code cell that produced no output (what \<^verbatim>\<open>clear_outputs\<close> leaves behind).\<close>

definition no_output_nb :: json where
  "no_output_nb = ipynb_of [code_dict ''b777420a'' [''x = 1''] []]"

text \<open>One code cell with two stream outputs, the first of two lines.\<close>

definition two_streams_nb :: json where
  "two_streams_nb = ipynb_of [code_dict ''b777420a'' [''print(1)'']
     [stream_output ''stdout'' [''one\<newline>'', ''two\<newline>''],
      stream_output ''stdout'' [''three\<newline>'']]]"

text \<open>One code cell whose second output is an error.\<close>

definition late_error_nb :: json where
  "late_error_nb = ipynb_of [code_dict ''b777420a'' [''print(1); 1 + None'']
     [stream_output ''stdout'' [''1\<newline>''],
      error_output ''TypeError'' ''unsupported operand'']]"

text \<open>One code cell that prints and then shows an image; one that only shows the image.\<close>

definition late_image_nb :: json where
  "late_image_nb = ipynb_of [code_dict ''b777420a'' [''print(1); show()'']
     [stream_output ''stdout'' [''1\<newline>''], image_output ''iVBORw0KGgo='']]"

definition image_nb :: json where
  "image_nb = ipynb_of [code_dict ''b777420a'' [''show()''] [image_output ''iVBORw0KGgo='']]"

section \<open>notebook_v1: the object model, PyPercentSerializer and Serializer\<close>

text \<open>
  The two cell classes of \<^verbatim>\<open>notebook_v1.py\<close> are unrelated classes whose attributes
  are copied from the cell dict as they are; \<^verbatim>\<open>isinstance\<close> is the constructor test.
  \<^verbatim>\<open>
  class CodeCell:                                  class MarkdownCell:
      def __init__(self, ipynb):                       def __init__(self, ipynb):
          self.id = ipynb['id']                            self.cell_type = ipynb['cell_type']
          self.cell_type = ipynb['cell_type']              self.id = ipynb['id']
          self.execution_count = ipynb['execution_count']  self.source = ipynb['source']
          self.source = ipynb['source']
  \<close>
\<close>

datatype v1_cell =
    v1_CodeCell (v1_id: json) (v1_cell_type: json) (v1_execution_count: json) (v1_source: json)
  | v1_MarkdownCell (v1_cell_type: json) (v1_id: json) (v1_source: json)

record v1_notebook =
  v1_version :: string
  v1_cells :: "v1_cell list"

definition v1_CodeCell_init :: "json \<Rightarrow> v1_cell result" where
  "v1_CodeCell_init ipynb =
     and_then (getitem_key ipynb ''id'') (\<lambda>i.
     and_then (getitem_key ipynb ''cell_type'') (\<lambda>t.
     and_then (getitem_key ipynb ''execution_count'') (\<lambda>n.
     and_then (getitem_key ipynb ''source'') (\<lambda>s.
       Inr (v1_CodeCell i t n s)))))"

definition v1_MarkdownCell_init :: "json \<Rightarrow> v1_cell result" where
  "v1_MarkdownCell_init ipynb =
     and_then (getitem_key ipynb ''cell_type'') (\<lambda>t.
     and_then (getitem_key ipynb ''id'') (\<lambda>i.
     and_then (getitem_key ipynb ''source'') (\<lambda>s.
       Inr (v1_MarkdownCell t i s))))"

text \<open>
  \<^verbatim>\<open>
  self.version = f"{ipynb['nbformat']}.{ipynb['nbformat_minor']}"
  self.cells = []
  for dic in ipynb['cells']:
      if dic['cell_type'] == 'code':
          self.cells.append(CodeCell(dic))
      elif dic['cell_type'] == 'markdown':
          self.cells.append(MarkdownCell(dic))
  \<close>
\<close>

definition v1_add_cell :: "v1_cell list \<Rightarrow> json \<Rightarrow> v1_cell list result" where
  "v1_add_cell cells dic =
     and_then (getitem_key dic ''cell_type'') (\<lambda>t.
       if t = JStr ''code'' then and_then (v1_CodeCell_init dic) (\<lambda>c. Inr (cells @ [c]))
       else if t = JStr ''markdown'' then
         and_then (v1_MarkdownCell_init dic) (\<lambda>c. Inr (cells @ [c]))
       else Inr cells)"

definition v1_Notebook :: "(json \<Rightarrow> string) \<Rightarrow> json \<Rightarrow> v1_notebook result" where
  "v1_Notebook rp ipynb =
     and_then (getitem_key ipynb ''nbformat'') (\<lambda>major.
     and_then (getitem_key ipynb ''nbformat_minor'') (\<lambda>minor.
     and_then (getitem_key ipynb ''cells'') (\<lambda>cells.
     and_then (py_iter cells) (\<lambda>dics.
     and_then (for_acc v1_add_cell [] dics) (\<lambda>cs.
       Inr \<lparr>v1_version = py_str rp major @ ''.'' @ py_str rp minor, v1_cells = cs\<rparr>)))))"

text \<open>
  \<^verbatim>\<open>
  ans = []
  for cell in self.notebook:
      if isinstance(cell, MarkdownCell):
          ans.append('# %% [markdown]\\n')
          for elem in cell.source:
              ans.append('# ')
              ans.append(elem)
      elif isinstance(cell, CodeCell):
          ans.append('# %%\\n')
          for elem in cell.source:
              ans.append(elem)
      ans.append('\\n\\n')
  ans.pop()
  return "".join(ans)
  \<close>
\<close>

definition py_percent_cell :: "json list \<Rightarrow> v1_cell \<Rightarrow> json list result" where
  "py_percent_cell ans cell =
     and_then
       (case cell of
          v1_MarkdownCell t i src \<Rightarrow>
            and_then (py_iter src) (\<lambda>elems.
              Inr (ans @ [JStr ''# %% [markdown]\<newline>''] @ concat (map (\<lambda>elem. [JStr ''# '', elem]) elems)))
        | v1_CodeCell i t n src \<Rightarrow>
            and_then (py_iter src) (\<lambda>elems. Inr (ans @ [JStr ''# %%\<newline>''] @ elems)))
       (\<lambda>ans'. Inr (ans' @ [JStr ''\<newline>\<newline>'']))"

definition to_py_percent :: "v1_notebook \<Rightarrow> string result" where
  "to_py_percent nb =
     and_then (for_acc py_percent_cell [] (v1_cells nb)) (\<lambda>ans.
     and_then (list_pop ans) str_join)"

text \<open>
  \<^verbatim>\<open>
  dic = {'cells' : [], 'metadata' : {}}
  for cell in self.nb:
      new_dic = {}
      if isinstance(cell, MarkdownCell):
          new_dic['cell_type'] = cell.cell_type
          new_dic['id'] = cell.id
          new_dic['medatada'] = {}
          new_dic['source'] = cell.source
      elif isinstance(cell, CodeCell):
          new_dic['cell_type'] = cell.cell_type
          new_dic['execution_count'] = cell.execution_count
          new_dic['id'] = cell.id
          new_dic['medatada'] = {}
          new_dic['outputs'] = []
          new_dic['source'] = cell.source
      dic['cells'].append(new_dic)
  dic['nbformat'], dic['nbformat_minor'] = \\
      int(self.nb.version.split(".")[0]), int(self.nb.version.split(".")[1])
  return dic
  \<close>
\<close>

definition serialize_cell :: "v1_cell \<Rightarrow> json" where
  "serialize_cell cell =
     (case cell of
        v1_MarkdownCell t i src \<Rightarrow>
          JDict [(''cell_type'', t), (''id'', i), (''medatada'', JDict []), (''source'', src)]
      | v1_CodeCell i t n src \<Rightarrow>
          JDict [(''cell_type'', t), (''execution_count'', n), (''id'', i),
                 (''medatada'', JDict []), (''outputs'', JList []), (''source'', src)])"

definition serialize :: "v1_notebook \<Rightarrow> json result" where
  "serialize nb =
     and_then (seq_index (split_on CHR ''.'' (v1_version nb)) 0) (\<lambda>s0.
     and_then (py_int s0) (\<lambda>major.
     and_then (seq_index (split_on CHR ''.'' (v1_version nb)) 1) (\<lambda>s1.
     and_then (py_int s1) (\<lambda>minor.
       Inr (JDict [(''cells'', JList (map serialize_cell (v1_cells nb))),
                   (''metadata'', JDict []),
                   (''nbformat'', JInt major),
                   (''nbformat_minor'', JInt minor)])))))"

section \<open>notebook_v2: cells as objects, the loaders and the transforms\<close>

text \<open>
  In \<^verbatim>\<open>notebook_v2.py\<close> a cell is an object with the attributes \<^verbatim>\<open>id\<close>,
  \<^verbatim>\<open>source\<close> and \<^verbatim>\<open>execution_count\<close>; what makes it a markdown or a code cell
  is its class, and \<^verbatim>\<open>MarkdownCell\<close> is a subclass of \<^verbatim>\<open>CodeCell\<close>:
  \<^verbatim>\<open>
  class CodeCell:
      def __init__(self, id, source, execution_count):
          self.id = id
          self.source = source
          self.execution_count = execution_count

  class MarkdownCell(CodeCell):
      def __init__(self, id, source):
          super().__init__(id, source, None)
  \<close>
\<close>

datatype py_class = CodeCell | MarkdownCell

record cell_obj =
  cls :: py_class
  cell_id :: json
  source :: json
  execution_count :: json

definition v2_CodeCell :: "json \<Rightarrow> json \<Rightarrow> json \<Rightarrow> cell_obj" where
  "v2_CodeCell i src n = \<lparr>cls = CodeCell, cell_id = i, source = src, execution_count = n\<rparr>"

definition v2_MarkdownCell :: "json \<Rightarrow> json \<Rightarrow> cell_obj" where
  "v2_MarkdownCell i src = \<lparr>cls = MarkdownCell, cell_id = i, source = src, execution_count = JNull\<rparr>"

text \<open>\<^verbatim>\<open>isinstance(cell, k)\<close>: the class of the cell is \<open>k\<close> or a subclass of it.\<close>

definition isinstance :: "cell_obj \<Rightarrow> py_class \<Rightarrow> bool" where
  "isinstance c k = (cls c = k \<or> (cls c = MarkdownCell \<and> k = CodeCell))"

record notebook =
  version :: string
  cells :: "cell_obj list"

text \<open>
  \<^verbatim>\<open>NotebookLoader.load\<close>, from the parsed JSON document on (reading and parsing the
  file is \<^verbatim>\<open>json.load\<close>):
  \<^verbatim>\<open>
  cell = []
  for dic in nb['cells']:
      if dic['cell_type'] == 'code':
          cell.append(CodeCell(dic['id'], dic['source'], dic['execution_count']))
      elif dic['cell_type'] == 'markdown':
          cell.append(MarkdownCell(dic['id'], dic['source']))
  return Notebook(f"{nb['nbformat']}.{nb['nbformat_minor']}", cell)
  \<close>
\<close>

definition load_cell :: "cell_obj list \<Rightarrow> json \<Rightarrow> cell_obj list result" where
  "load_cell cell dic =
     and_then (getitem_key dic ''cell_type'') (\<lambda>t.
       if t = JStr ''code'' then
         and_then (getitem_key dic ''id'') (\<lambda>i.
         and_then (getitem_key dic ''source'') (\<lambda>src.
         and_then (getitem_key dic ''execution_count'') (\<lambda>n.
           Inr (cell @ [v2_CodeCell i src n]))))
       else if t = JStr ''markdown'' then
         and_then (getitem_key dic ''id'') (\<lambda>i.
         and_then (getitem_key dic ''source'') (\<lambda>src.
           Inr (cell @ [v2_MarkdownCell i src])))
       else Inr cell)"

definition NotebookLoader_load :: "(json \<Rightarrow> string) \<Rightarrow> json \<Rightarrow> notebook result" where
  "NotebookLoader_load rp nb =
     and_then (getitem_key nb ''cells'') (\<lambda>cs.
     and_then (py_iter cs) (\<lambda>dics.
     and_then (for_acc load_cell [] dics) (\<lambda>cell.
     and_then (getitem_key nb ''nbformat'') (\<lambda>major.
     and_then (getitem_key nb ''nbformat_minor'') (\<lambda>minor.
       Inr \<lparr>version = py_str rp major @ ''.'' @ py_str rp minor, cells = cell\<rparr>)))))"

text \<open>
  \<^verbatim>\<open>PyPercentLoader.load\<close>, from the lines of the file on. The inner loop of the
  markdown branch:
  \<^verbatim>\<open>
  while counter < l - 1 and blankline == False:
      if lines[counter] == "\\n":
          counter += 1
          blankline = True
      elif lines[counter][-1:] == "\\n":
          markdown_cell.append(lines[counter][2:-1])
          counter += 1
      else:
          markdown_cell.append(lines[counter][2:])
          counter += 1
  \<close>
  The loop ends as soon as \<^verbatim>\<open>blankline\<close> is set, so the flag is the return of the
  function. The result is the new counter and the collected lines. The comparison
  \<^verbatim>\<open>counter < l - 1\<close> is on integers: for an empty file \<^verbatim>\<open>l - 1\<close> is \<open>-1\<close>.
\<close>

definition ends_with_newline :: "string \<Rightarrow> bool" where
  "ends_with_newline s = (s \<noteq> [] \<and> last s = CHR 0x0A)"

function markdown_block :: "string list \<Rightarrow> nat \<Rightarrow> string list \<Rightarrow> nat \<times> string list" where
  "markdown_block lines counter markdown_cell =
     (if int counter < int (length lines) - 1 then
        (if lines ! counter = [CHR 0x0A] then (counter + 1, markdown_cell)
         else if ends_with_newline (lines ! counter) then
           markdown_block lines (counter + 1) (markdown_cell @ [drop 2 (butlast (lines ! counter))])
         else markdown_block lines (counter + 1) (markdown_cell @ [drop 2 (lines ! counter)]))
      else (counter, markdown_cell))"
  by pat_completeness auto
termination
  by (relation "measure (\<lambda>(lines, counter, acc). length lines - counter)") auto

text \<open>The inner loop of the code branch keeps the whole line (\<^verbatim>\<open>[:-1]\<close> or all of it).\<close>

function code_block :: "string list \<Rightarrow> nat \<Rightarrow> string list \<Rightarrow> nat \<times> string list" where
  "code_block lines counter code_cell =
     (if int counter < int (length lines) - 1 then
        (if lines ! counter = [CHR 0x0A] then (counter + 1, code_cell)
         else if ends_with_newline (lines ! counter) then
           code_block lines (counter + 1) (code_cell @ [butlast (lines ! counter)])
         else code_block lines (counter + 1) (code_cell @ [lines ! counter]))
      else (counter, code_cell))"
  by pat_completeness auto
termination
  by (relation "measure (\<lambda>(lines, counter, acc). length lines - counter)") auto

declare markdown_block.simps [simp del] code_block.simps [simp del]

lemma markdown_block_counter: "counter \<le> fst (markdown_block lines counter acc)"
proof (induction lines counter acc rule: markdown_block.induct)
  case (1 lines counter acc)
  show ?case
  proof (cases "int counter < int (length lines) - 1")
    case False
    then show ?thesis by (subst markdown_block.simps) simp
  next
    case True
    show ?thesis
    proof (cases "lines ! counter = [CHR 0x0A]")
      case nl: True
      with True show ?thesis by (subst markdown_block.simps) simp
    next
      case nl: False
      show ?thesis
      proof (cases "ends_with_newline (lines ! counter)")
        case e: True
        have "counter + 1 \<le> fst (markdown_block lines (counter + 1) (acc @ [drop 2 (butlast (lines ! counter))]))"
          by (rule "1.IH"(1) [OF True nl e])
        then show ?thesis using True nl e by (subst markdown_block.simps) simp
      next
        case e: False
        have "counter + 1 \<le> fst (markdown_block lines (counter + 1) (acc @ [drop 2 (lines ! counter)]))"
          by (rule "1.IH"(2) [OF True nl e])
        then show ?thesis using True nl e by (subst markdown_block.simps) simp
      qed
    qed
  qed
qed

lemma code_block_counter: "counter \<le> fst (code_block lines counter acc)"
proof (induction lines counter acc rule: code_block.induct)
  case (1 lines counter acc)
  show ?case
  proof (cases "int counter < int (length lines) - 1")
    case False
    then show ?thesis by (subst code_block.simps) simp
  next
    case True
    show ?thesis
    proof (cases "lines ! counter = [CHR 0x0A]")
      case nl: True
      with True show ?thesis by (subst code_block.simps) simp
    next
      case nl: False
      show ?thesis
      proof (cases "ends_with_newline (lines ! counter)")
        case e: True
        have "counter + 1 \<le> fst (code_block lines (counter + 1) (acc @ [butlast (lines ! counter)]))"
          by (rule "1.IH"(1) [OF True nl e])
        then show ?thesis using True nl e by (subst code_block.simps) simp
      next
        case e: False
        have "counter + 1 \<le> fst (code_block lines (counter + 1) (acc @ [lines ! counter]))"
          by (rule "1.IH"(2) [OF True nl e])
        then show ?thesis using True nl e by (subst code_block.simps) simp
      qed
    qed
  qed
qed

text \<open>
  The outer loop:
  \<^verbatim>\<open>
  while counter < l - 1:
      if "markdown" in lines[counter]:
          counter += 1
          markdown_cell = []
          ... inner loop ...
          cells.append(MarkdownCell(id, markdown_cell))
          id += 1
      else:
          counter += 1
          code_cell = []
          ... inner loop ...
          cells.append(CodeCell(id, code_cell, 1)) #execution_count = 1
          id += 1
  return Notebook(self.version, cells)
  \<close>
\<close>

function load_loop :: "string list \<Rightarrow> nat \<Rightarrow> int \<Rightarrow> cell_obj list \<Rightarrow> cell_obj list" where
  "load_loop lines counter i cs =
     (if int counter < int (length lines) - 1 then
        (if str_in ''markdown'' (lines ! counter) then
           load_loop lines (fst (markdown_block lines (counter + 1) [])) (i + 1)
             (cs @ [v2_MarkdownCell (JInt i)
                      (JList (map JStr (snd (markdown_block lines (counter + 1) []))))])
         else
           load_loop lines (fst (code_block lines (counter + 1) [])) (i + 1)
             (cs @ [v2_CodeCell (JInt i)
                      (JList (map JStr (snd (code_block lines (counter + 1) [])))) (JInt 1)]))
      else cs)"
  by pat_completeness auto
termination
proof (relation "measure (\<lambda>(lines, counter, i, cs). length lines - counter)")
  show "wf (measure (\<lambda>(lines, counter, i, cs). length lines - counter))" by simp
next
  fix lines :: "string list" and counter :: nat and i :: int and cs :: "cell_obj list"
  assume "int counter < int (length lines) - 1"
  moreover have "counter + 1 \<le> fst (markdown_block lines (counter + 1) [])"
    by (rule markdown_block_counter)
  ultimately show "((lines, fst (markdown_block lines (counter + 1) []), i + 1,
            cs @ [v2_MarkdownCell (JInt i)
                    (JList (map JStr (snd (markdown_block lines (counter + 1) []))))]),
           lines, counter, i, cs)
          \<in> measure (\<lambda>(lines, counter, i, cs). length lines - counter)"
    by simp
next
  fix lines :: "string list" and counter :: nat and i :: int and cs :: "cell_obj list"
  assume "int counter < int (length lines) - 1"
  moreover have "counter + 1 \<le> fst (code_block lines (counter + 1) [])"
    by (rule code_block_counter)
  ultimately show "((lines, fst (code_block lines (counter + 1) []), i + 1,
            cs @ [v2_CodeCell (JInt i)
                    (JList (map JStr (snd (code_block lines (counter + 1) [])))) (JInt 1)]),
           lines, counter, i, cs)
          \<in> measure (\<lambda>(lines, counter, i, cs). length lines - counter)"
    by simp
qed

declare load_loop.simps [simp del]

definition PyPercentLoader_load :: "string list \<Rightarrow> string \<Rightarrow> notebook" where
  "PyPercentLoader_load lines vers = \<lparr>version = vers, cells = load_loop lines 0 0 []\<rparr>"

text \<open>
  For the round trip through the tree-of-records form: a v1 cell is well formed when the
  \<^verbatim>\<open>cell_type\<close> attribute copied from its dict names its own class, as it does for
  every cell the \<^verbatim>\<open>Notebook\<close> constructor builds; its kind is its class; and
  \<open>reloaded\<close> is the v2 object with the same identifier, source and execution count.
\<close>

definition v1_cell_ok :: "v1_cell \<Rightarrow> bool" where
  "v1_cell_ok c =
     (case c of
        v1_CodeCell i t n src \<Rightarrow> t = JStr ''code''
      | v1_MarkdownCell t i src \<Rightarrow> t = JStr ''markdown'')"

definition v1_kind :: "v1_cell \<Rightarrow> py_class" where
  "v1_kind c = (case c of v1_CodeCell i t n src \<Rightarrow> CodeCell | v1_MarkdownCell t i src \<Rightarrow> MarkdownCell)"

definition reloaded :: "v1_cell \<Rightarrow> cell_obj" where
  "reloaded c =
     (case c of
        v1_CodeCell i t n src \<Rightarrow> v2_CodeCell i src n
      | v1_MarkdownCell t i src \<Rightarrow> v2_MarkdownCell i src)"

definition hello_v1 :: v1_notebook where
  "hello_v1 = \<lparr>v1_version = ''4.5'',
     v1_cells =
       [v1_MarkdownCell (JStr ''markdown'') (JStr ''a9541506'')
          (JList [JStr ''Hello world!\<newline>'', JStr ''============\<newline>'',
                  JStr ''Print `Hello world!`:'']),
        v1_CodeCell (JStr ''b777420a'') (JStr ''code'') (JInt 1)
          (JList [JStr ''print(\"Hello world!\")'']),
        v1_MarkdownCell (JStr ''markdown'') (JStr ''a23ab5ac'') (JList [JStr ''Goodbye!''])]\<rparr>"

text \<open>
  A v1 notebook with identifiers \<^verbatim>\<open>"0"\<close> and \<^verbatim>\<open>"1"\<close> and one source line per cell,
  for the trip through the flat script text.
\<close>

definition hi_x1_v1 :: v1_notebook where
  "hi_x1_v1 = \<lparr>v1_version = ''4.5'',
     v1_cells = [v1_MarkdownCell (JStr ''markdown'') (JStr ''0'') (JList [JStr ''Hi'']),
                 v1_CodeCell (JStr ''1'') (JStr ''code'') (JInt 1) (JList [JStr ''x=1''])]\<rparr>"

section \<open>notebook_v2: Markdownizer and MarkdownLesser on shared cell objects\<close>

text \<open>
  \<^verbatim>\<open>Markdownizer\<close> keeps the very cell objects of the notebook it is given and changes
  them in place, so the cells live in a store, from addresses to objects, and a notebook
  holds addresses. The list objects themselves are never changed in place by these
  classes (only attributes are rebound), so a notebook holds its list by value.
  \<^verbatim>\<open>
  class Markdownizer(Notebook):                 class MarkdownLesser:
      def __init__(self, notebook):                 def __init__(self, notebook):
          self.cells = notebook.cells                   self.version = notebook.version
          self.version = notebook.version               self.cells = notebook.cells

      def markdownize(self):                        def remove_markdown_cells(self):
          for cell in self.cells:                       new_cells = []
              if isinstance(cell, CodeCell):            for cell in self.cells:
                  cell.__class__ = MarkdownCell             if not isinstance(cell, MarkdownCell):
          return self                                           new_cells.append(cell)
                                                        self.cells = new_cells
                                                        return self
  \<close>
\<close>

type_synonym heap = "nat \<Rightarrow> cell_obj option"

record notebook_ref =
  ref_version :: string
  ref_cells :: "nat list"

definition Markdownizer_init :: "notebook_ref \<Rightarrow> notebook_ref" where
  "Markdownizer_init nb = \<lparr>ref_version = ref_version nb, ref_cells = ref_cells nb\<rparr>"

definition MarkdownLesser_init :: "notebook_ref \<Rightarrow> notebook_ref" where
  "MarkdownLesser_init nb = \<lparr>ref_version = ref_version nb, ref_cells = ref_cells nb\<rparr>"

text \<open>One turn of the loop of \<^verbatim>\<open>markdownize\<close>, on the cell at address \<open>a\<close>.\<close>

definition retag :: "heap \<Rightarrow> nat \<Rightarrow> heap" where
  "retag h a =
     (case h a of
        None \<Rightarrow> h
      | Some c \<Rightarrow> if isinstance c CodeCell then h(a := Some (c\<lparr>cls := MarkdownCell\<rparr>)) else h)"

definition markdownize :: "heap \<Rightarrow> notebook_ref \<Rightarrow> heap \<times> notebook_ref" where
  "markdownize h self = (foldl retag h (ref_cells self), self)"

text \<open>An address of a notebook always holds a cell; one that held none would be dropped.\<close>

definition keeps :: "heap \<Rightarrow> nat \<Rightarrow> bool" where
  "keeps h a = (case h a of None \<Rightarrow> False | Some c \<Rightarrow> \<not> isinstance c MarkdownCell)"

definition remove_markdown_cells :: "heap \<Rightarrow> notebook_ref \<Rightarrow> heap \<times> notebook_ref" where
  "remove_markdown_cells h self = (h, self\<lparr>ref_cells := filter (keeps h) (ref_cells self)\<rparr>)"

text \<open>
  The notebook of the docstrings with two of its cells in the store: a markdown cell at
  address 0 and a code cell at address 1.
\<close>

definition store0 :: heap where
  "store0 = (\<lambda>a. None)
     (0 := Some (v2_MarkdownCell (JStr ''a9541506'') (JList [JStr ''Hello world!''])),
      1 := Some (v2_CodeCell (JStr ''b777420a'') (JList [JStr ''print(\"Hello world!\")'']) (JInt 1)))"

definition nb0 :: notebook_ref where
  "nb0 = \<lparr>ref_version = ''4.5'', ref_cells = [0, 1]\<rparr>"

text \<open>The \<^verbatim>\<open>cell_type\<close> entries of the cells of a notebook dict, in order.\<close>

definition cell_types :: "json \<Rightarrow> json result list" where
  "cell_types ipynb = map (\<lambda>d. getitem_key d ''cell_type'') (cell_dicts ipynb)"

section \<open>Basic facts\<close>

lemma and_then_Inr [simp]: "and_then (Inr x) f = f x"
  by (simp add: and_then_def)

lemma and_then_Inl [simp]: "and_then (Inl e) f = Inl e"
  by (simp add: and_then_def)

lemma and_then_eq_Inr:
  "and_then m f = Inr y \<longleftrightarrow> (\<exists>x. m = Inr x \<and> f x = Inr y)"
  by (cases m) simp_all

lemma update_same: "map_of al k = Some v \<Longrightarrow> AList.update k v al = al"
  by (induction al) (auto split: if_splits)

lemma for_each_fixed:
  assumes "\<And>x y. x \<in> set xs \<Longrightarrow> f x = Inr y \<Longrightarrow> f y = Inr y"
    and "for_each f xs = Inr ys"
  shows "for_each f ys = Inr ys"
  using assms
proof (induction xs arbitrary: ys)
  case Nil
  then show ?case by simp
next
  case (Cons x xs)
  from Cons.prems(2) obtain y zs where
    y: "f x = Inr y" and zs: "for_each f xs = Inr zs" and ys: "ys = y # zs"
    by (auto simp: and_then_eq_Inr)
  have "f y = Inr y" by (rule Cons.prems(1) [OF _ y]) simp
  moreover have "for_each f zs = Inr zs"
    by (rule Cons.IH [OF _ zs], rule Cons.prems(1)) simp_all
  ultimately show ?case by (simp add: ys)
qed

lemma for_each_all:
  assumes "\<And>x y. x \<in> set xs \<Longrightarrow> f x = Inr y \<Longrightarrow> P y"
    and "for_each f xs = Inr ys"
  shows "\<forall>y \<in> set ys. P y"
  using assms
proof (induction xs arbitrary: ys)
  case Nil
  then show ?case by simp
next
  case (Cons x xs)
  from Cons.prems(2) obtain y zs where
    y: "f x = Inr y" and zs: "for_each f xs = Inr zs" and ys: "ys = y # zs"
    by (auto simp: and_then_eq_Inr)
  have "P y" by (rule Cons.prems(1) [OF _ y]) simp
  moreover have "\<forall>z \<in> set zs. P z"
    by (rule Cons.IH [OF _ zs], rule Cons.prems(1)) simp_all
  ultimately show ?case by (simp add: ys)
qed

section \<open>Printing and parsing integers, splitting the version\<close>

lemma below_ten: "(d::nat) < 10 \<Longrightarrow> d \<in> {0, 1, 2, 3, 4, 5, 6, 7, 8, 9}"
  by auto

lemma digit_char_is_digit: "d < 10 \<Longrightarrow> is_digit (digit_char d)"
  by (drule below_ten) (auto simp: is_digit_def digit_char_def)

lemma digit_val_digit_char: "d < 10 \<Longrightarrow> digit_val (digit_char d) = d"
  by (drule below_ten) (auto simp: digit_val_def digit_char_def)

lemma is_digit_cases:
  "is_digit c \<Longrightarrow> c \<noteq> CHR ''_'' \<and> c \<noteq> CHR ''-'' \<and> c \<noteq> CHR ''+'' \<and> c \<noteq> CHR ''.'' \<and> \<not> is_space c"
  by (auto simp: is_digit_def is_space_def)

lemma str_nat_digits: "c \<in> set (str_nat n) \<Longrightarrow> is_digit c"
proof (induction n arbitrary: c rule: str_nat.induct)
  case (1 n)
  show ?case
  proof (cases "n < 10")
    case True
    then have "str_nat n = [digit_char n]" by (subst str_nat.simps) simp
    with "1.prems" True show ?thesis by (simp add: digit_char_is_digit)
  next
    case False
    with "1.prems" have "c \<in> set (str_nat (n div 10)) \<or> c = digit_char (n mod 10)"
      by (subst (asm) str_nat.simps) auto
    then show ?thesis
    proof
      assume "c \<in> set (str_nat (n div 10))"
      then show ?thesis by (rule "1.IH" [OF False])
    next
      assume "c = digit_char (n mod 10)"
      then show ?thesis by (simp add: digit_char_is_digit)
    qed
  qed
qed

lemma str_nat_nonempty: "str_nat n \<noteq> []"
  by (subst str_nat.simps) simp

lemma digits_val_snoc: "digits_val (ds @ [c]) = 10 * digits_val ds + digit_val c"
  by (simp add: digits_val_def)

lemma digits_val_str_nat: "digits_val (str_nat n) = n"
proof (induction n rule: str_nat.induct)
  case (1 n)
  show ?case
  proof (cases "n < 10")
    case True
    then have "str_nat n = [digit_char n]" by (subst str_nat.simps) simp
    then show ?thesis using True by (simp add: digits_val_def digit_val_digit_char)
  next
    case False
    then have "str_nat n = str_nat (n div 10) @ [digit_char (n mod 10)]"
      by (subst str_nat.simps) simp
    then have "digits_val (str_nat n) = 10 * digits_val (str_nat (n div 10)) + n mod 10"
      by (simp add: digits_val_snoc digit_val_digit_char)
    also have "\<dots> = 10 * (n div 10) + n mod 10" using "1.IH" [OF False] by simp
    finally show ?thesis by simp
  qed
qed

lemma int_body_ok_digits:
  "ds \<noteq> [] \<Longrightarrow> (\<And>c. c \<in> set ds \<Longrightarrow> is_digit c) \<Longrightarrow> int_body_ok ds"
proof (induction ds rule: int_body_ok.induct)
  case 1
  then show ?case by simp
next
  case (2 c)
  then show ?case by simp
next
  case (3 c d cs)
  have d: "is_digit d" by (rule "3.prems"(2)) simp
  then have "d \<noteq> CHR ''_''" by (simp add: is_digit_cases)
  moreover have "int_body_ok (d # cs)"
  proof (rule "3.IH"(2))
    show "d \<noteq> CHR ''_''" by fact
    show "d # cs \<noteq> []" by simp
    fix x assume "x \<in> set (d # cs)"
    then show "is_digit x" using "3.prems"(2) by simp
  qed
  moreover have "is_digit c" by (rule "3.prems"(2)) simp
  ultimately show ?case by simp
qed

lemma dropWhile_none: "(\<And>c. c \<in> set s \<Longrightarrow> \<not> P c) \<Longrightarrow> dropWhile P s = s"
  by (cases s) simp_all

lemma strip_no_space:
  assumes "\<And>c. c \<in> set s \<Longrightarrow> \<not> is_space c"
  shows "strip s = s"
proof -
  have "dropWhile is_space s = s"
    by (rule dropWhile_none) (rule assms)
  moreover have "dropWhile is_space (rev s) = rev s"
    by (rule dropWhile_none) (simp add: assms)
  ultimately show ?thesis by (simp add: strip_def)
qed

lemma py_int_str_nat: "py_int (str_nat n) = Inr (int n)"
proof -
  let ?s = "str_nat n"
  have ne: "?s \<noteq> []" by (rule str_nat_nonempty)
  have dg: "\<And>c. c \<in> set ?s \<Longrightarrow> is_digit c" by (rule str_nat_digits)
  have st: "strip ?s = ?s" by (rule strip_no_space) (simp add: dg is_digit_cases)
  have "hd ?s \<in> set ?s" using ne by simp
  then have "is_digit (hd ?s)" by (rule dg)
  then have hd: "hd ?s \<noteq> CHR ''-''" "hd ?s \<noteq> CHR ''+''" by (simp_all add: is_digit_cases)
  have ok: "int_body_ok ?s" by (rule int_body_ok_digits [OF ne dg])
  have fl: "filter is_digit ?s = ?s" using dg by (simp add: filter_id_conv)
  show ?thesis
    by (simp add: py_int_def st hd ok fl digits_val_str_nat Let_def)
qed

lemma py_int_minus_str_nat: "py_int (CHR ''-'' # str_nat n) = Inr (- int n)"
proof -
  let ?s = "str_nat n"
  have ne: "?s \<noteq> []" by (rule str_nat_nonempty)
  have dg: "\<And>c. c \<in> set ?s \<Longrightarrow> is_digit c" by (rule str_nat_digits)
  have "\<not> is_space CHR ''-''" by (simp add: is_space_def)
  then have st: "strip (CHR ''-'' # ?s) = CHR ''-'' # ?s"
    by (intro strip_no_space) (auto simp: is_digit_cases dest: dg)
  have ok: "int_body_ok ?s" by (rule int_body_ok_digits [OF ne dg])
  have fl: "filter is_digit ?s = ?s" using dg by (simp add: filter_id_conv)
  show ?thesis
    by (simp add: py_int_def st ok fl digits_val_str_nat Let_def)
qed

lemma py_int_str_int: "py_int (str_int i) = Inr i"
proof (cases "i < 0")
  case True
  then show ?thesis by (simp add: str_int_def py_int_minus_str_nat)
next
  case False
  then show ?thesis by (simp add: str_int_def py_int_str_nat)
qed

lemma str_int_no_dot: "CHR ''.'' \<notin> set (str_int i)"
  using str_nat_digits is_digit_cases by (auto simp: str_int_def)

lemma split_on_none: "sep \<notin> set xs \<Longrightarrow> split_on sep xs = [xs]"
  by (induction xs) auto

lemma split_on_first: "sep \<notin> set xs \<Longrightarrow> split_on sep (xs @ sep # ys) = xs # split_on sep ys"
  by (induction xs) auto

lemma split_version:
  "split_on CHR ''.'' (str_int a @ ''.'' @ str_int b) = [str_int a, str_int b]"
  using split_on_first [OF str_int_no_dot, of a "str_int b"] split_on_none [OF str_int_no_dot, of b]
  by simp

section \<open>Clearing outputs is idempotent\<close>

lemma clear_cell_dict:
  "clear_cell dic = Inr d \<Longrightarrow> \<exists>kvs. dic = JDict kvs"
  by (cases dic) (simp_all add: clear_cell_def)

lemma clear_cell_code:
  assumes "map_of kvs ''cell_type'' = Some (JStr ''code'')"
  shows "clear_cell (JDict kvs) =
    Inr (JDict (AList.update ''outputs'' (JList []) (AList.update ''execution_count'' JNull kvs)))"
  using assms by (simp add: clear_cell_def)

lemma clear_cell_other:
  assumes "map_of kvs ''cell_type'' = Some t" "t \<noteq> JStr ''code''"
  shows "clear_cell (JDict kvs) = Inr (JDict kvs)"
  using assms by (simp add: clear_cell_def)

lemma clear_cell_missing:
  assumes "map_of kvs ''cell_type'' = None"
  shows "clear_cell (JDict kvs) = Inl KeyError"
  using assms by (simp add: clear_cell_def)

lemma cleared_lookups:
  fixes kvs :: "(string \<times> json) list"
  defines "kvs' \<equiv> AList.update ''outputs'' (JList []) (AList.update ''execution_count'' JNull kvs)"
  shows "map_of kvs' ''outputs'' = Some (JList [])"
    and "map_of kvs' ''execution_count'' = Some JNull"
    and "map_of kvs' ''cell_type'' = map_of kvs ''cell_type''"
  by (simp_all add: kvs'_def update_conv')

lemma cleared_again:
  fixes kvs :: "(string \<times> json) list"
  defines "kvs' \<equiv> AList.update ''outputs'' (JList []) (AList.update ''execution_count'' JNull kvs)"
  shows "AList.update ''outputs'' (JList []) (AList.update ''execution_count'' JNull kvs') = kvs'"
proof -
  have "AList.update ''execution_count'' JNull kvs' = kvs'"
    by (rule update_same) (simp add: kvs'_def update_conv')
  moreover have "AList.update ''outputs'' (JList []) kvs' = kvs'"
    by (rule update_same) (simp add: kvs'_def update_conv')
  ultimately show ?thesis by simp
qed

lemma clear_cell_fixed:
  assumes "clear_cell dic = Inr d"
  shows "clear_cell d = Inr d"
proof -
  from assms obtain kvs where dic: "dic = JDict kvs" using clear_cell_dict by blast
  show ?thesis
  proof (cases "map_of kvs ''cell_type''")
    case None
    then show ?thesis using assms dic by (simp add: clear_cell_missing)
  next
    case (Some t)
    show ?thesis
    proof (cases "t = JStr ''code''")
      case True
      with Some have ct: "map_of kvs ''cell_type'' = Some (JStr ''code'')" by simp
      from assms have d: "d = JDict (AList.update ''outputs'' (JList []) (AList.update ''execution_count'' JNull kvs))"
        unfolding dic clear_cell_code [OF ct] by simp
      have "clear_cell d = Inr (JDict (AList.update ''outputs'' (JList [])
              (AList.update ''execution_count'' JNull
                 (AList.update ''outputs'' (JList []) (AList.update ''execution_count'' JNull kvs)))))"
        unfolding d by (rule clear_cell_code) (simp add: cleared_lookups ct)
      then show ?thesis unfolding d cleared_again .
    next
      case False
      from assms have "d = dic" unfolding dic clear_cell_other [OF Some False] by simp
      then show ?thesis using assms by simp
    qed
  qed
qed

lemma clear_cell_cleared:
  assumes "clear_cell dic = Inr d" "is_code_cell d"
  shows "getitem_key d ''execution_count'' = Inr JNull \<and> getitem_key d ''outputs'' = Inr (JList [])"
proof -
  from assms obtain kvs where dic: "dic = JDict kvs" using clear_cell_dict by blast
  show ?thesis
  proof (cases "map_of kvs ''cell_type''")
    case None
    then show ?thesis using assms dic by (simp add: clear_cell_missing)
  next
    case (Some t)
    show ?thesis
    proof (cases "t = JStr ''code''")
      case True
      with Some have ct: "map_of kvs ''cell_type'' = Some (JStr ''code'')" by simp
      from assms have d: "d = JDict (AList.update ''outputs'' (JList []) (AList.update ''execution_count'' JNull kvs))"
        unfolding dic clear_cell_code [OF ct] by simp
      show ?thesis unfolding d by (simp add: cleared_lookups)
    next
      case False
      from assms have "d = dic" unfolding dic clear_cell_other [OF Some False] by simp
      then have "\<not> is_code_cell d" using Some False by (simp add: is_code_cell_def dic)
      then show ?thesis using assms(2) by simp
    qed
  qed
qed

lemma clear_outputs_unfold:
  assumes "clear_outputs N = Inr N'"
  obtains kvs cells dics dics' where
    "N = JDict kvs" "map_of kvs ''cells'' = Some cells"
    "py_iter cells = Inr dics" "for_each clear_cell dics = Inr dics'"
    "N' = store_cells N cells dics'"
proof -
  from assms obtain kvs where N: "N = JDict kvs"
    by (cases N) (simp_all add: clear_outputs_def)
  from assms obtain cells where c: "map_of kvs ''cells'' = Some cells"
    unfolding N clear_outputs_def by (cases "map_of kvs ''cells''") simp_all
  from assms obtain dics where it: "py_iter cells = Inr dics"
    unfolding N clear_outputs_def by (cases "py_iter cells") (simp_all add: c)
  from assms obtain dics' where fe: "for_each clear_cell dics = Inr dics'"
    unfolding N clear_outputs_def by (cases "for_each clear_cell dics") (simp_all add: c it)
  from assms have "N' = store_cells N cells dics'"
    unfolding N clear_outputs_def by (simp add: c it fe)
  with N c it fe that show ?thesis by blast
qed


lemma clear_outputs_list:
  assumes "map_of kvs ''cells'' = Some (JList ds)" "for_each clear_cell ds = Inr ds'"
  shows "clear_outputs (JDict kvs) = Inr (JDict (AList.update ''cells'' (JList ds') kvs))"
  using assms by (simp add: clear_outputs_def store_cells_def)

lemma clear_outputs_fixed:
  assumes "clear_outputs N = Inr N'"
  shows "clear_outputs N' = Inr N'"
proof -
  from assms obtain kvs cells dics dics' where
    N: "N = JDict kvs" and c: "map_of kvs ''cells'' = Some cells"
    and it: "py_iter cells = Inr dics" and fe: "for_each clear_cell dics = Inr dics'"
    and N': "N' = store_cells N cells dics'"
    by (rule clear_outputs_unfold)
  show ?thesis
  proof (cases cells)
    case (JList ds)
    with it have ds: "dics = ds" by simp
    have fx: "for_each clear_cell dics' = Inr dics'"
      by (rule for_each_fixed [OF _ fe]) (rule clear_cell_fixed)
    have N'': "N' = JDict (AList.update ''cells'' (JList dics') kvs)"
      by (simp add: N' store_cells_def N JList)
    have "clear_outputs N' = Inr (JDict (AList.update ''cells'' (JList dics')
             (AList.update ''cells'' (JList dics') kvs)))"
      unfolding N'' by (rule clear_outputs_list [OF _ fx]) (simp add: update_conv')
    then show ?thesis by (simp add: N'')
  next
    case JNull
    then have "N' = N" by (simp add: N' store_cells_def N)
    then show ?thesis using assms by simp
  next
    case (JBool b)
    then have "N' = N" by (simp add: N' store_cells_def N)
    then show ?thesis using assms by simp
  next
    case (JInt i)
    then have "N' = N" by (simp add: N' store_cells_def N)
    then show ?thesis using assms by simp
  next
    case (JStr s)
    then have "N' = N" by (simp add: N' store_cells_def N)
    then show ?thesis using assms by simp
  next
    case (JDict d)
    then have "N' = N" by (simp add: N' store_cells_def N)
    then show ?thesis using assms by simp
  qed
qed

lemma clear_outputs_cleared:
  assumes "clear_outputs N = Inr N'" "d \<in> set (cell_dicts N')" "is_code_cell d"
  shows "getitem_key d ''execution_count'' = Inr JNull \<and> getitem_key d ''outputs'' = Inr (JList [])"
proof -
  from assms(1) obtain kvs cells dics dics' where
    N: "N = JDict kvs" and c: "map_of kvs ''cells'' = Some cells"
    and it: "py_iter cells = Inr dics" and fe: "for_each clear_cell dics = Inr dics'"
    and N': "N' = store_cells N cells dics'"
    by (rule clear_outputs_unfold)
  show ?thesis
  proof (cases "\<exists>ds. cells = JList ds")
    case True
    then obtain ds where ds: "cells = JList ds" by blast
    have N'': "N' = JDict (AList.update ''cells'' (JList dics') kvs)"
      by (simp add: N' store_cells_def N ds)
    have "cell_dicts N' = dics'" by (simp add: N'' cell_dicts_def update_conv')
    with assms(2) have "d \<in> set dics'" by simp
    moreover have "\<forall>y \<in> set dics'. is_code_cell y \<longrightarrow>
        getitem_key y ''execution_count'' = Inr JNull \<and> getitem_key y ''outputs'' = Inr (JList [])"
      by (rule for_each_all [OF _ fe]) (simp add: clear_cell_cleared)
    ultimately show ?thesis using assms(3) by blast
  next
    case False
    then have "N' = N" by (cases cells) (simp_all add: N' store_cells_def N)
    moreover have "cell_dicts N = []" using False c by (cases cells) (simp_all add: N cell_dicts_def)
    ultimately show ?thesis using assms(2) by simp
  qed
qed

text \<open>
  C8. Clearing a second time changes nothing: running \<open>clear_outputs\<close> on the result of
  \<open>clear_outputs\<close> gives the same result (an exception of the first run stays that
  exception), and in the result of a successful run every code cell has execution count
  \<^verbatim>\<open>None\<close> and an empty output list.
\<close>

theorem clear_outputs_idempotent:
  "and_then (clear_outputs N) clear_outputs = clear_outputs N \<and>
   (\<forall>N'. clear_outputs N = Inr N' \<longrightarrow>
      (\<forall>d \<in> set (cell_dicts N'). is_code_cell d \<longrightarrow>
         getitem_key d ''execution_count'' = Inr JNull \<and>
         getitem_key d ''outputs'' = Inr (JList [])))"
proof (intro conjI allI impI ballI)
  show "and_then (clear_outputs N) clear_outputs = clear_outputs N"
  proof (cases "clear_outputs N")
    case (Inl e) then show ?thesis by simp
  next
    case (Inr N') then show ?thesis by (simp add: clear_outputs_fixed)
  qed
next
  fix N' d
  assume "clear_outputs N = Inr N'" "d \<in> set (cell_dicts N')" "is_code_cell d"
  then show "getitem_key d ''execution_count'' = Inr JNull"
    using clear_outputs_cleared by blast
next
  fix N' d
  assume "clear_outputs N = Inr N'" "d \<in> set (cell_dicts N')" "is_code_cell d"
  then show "getitem_key d ''outputs'' = Inr (JList [])"
    using clear_outputs_cleared by blast
qed

lemma clear_hello_world: "clear_outputs hello_world = Inr hello_world_cleared"
  by (simp add: clear_outputs_def hello_world_def hello_world_cleared_def clear_cell_def
      store_cells_def)

text \<open>The sample notebook \<^verbatim>\<open>hello-world.ipynb\<close> of the docstrings, cleared once and twice.\<close>

theorem clear_outputs_idempotent_witness:
  "clear_outputs hello_world = Inr hello_world_cleared \<and>
   clear_outputs hello_world_cleared = Inr hello_world_cleared \<and>
   map (\<lambda>d. getitem_key d ''outputs'') (filter is_code_cell (cell_dicts hello_world_cleared))
     = [Inr (JList [])]"
proof -
  have "and_then (clear_outputs hello_world) clear_outputs = clear_outputs hello_world"
    using clear_outputs_idempotent [of hello_world] by (rule conjunct1)
  then have "clear_outputs hello_world_cleared = Inr hello_world_cleared"
    by (simp add: clear_hello_world)
  moreover have "map (\<lambda>d. getitem_key d ''outputs'') (filter is_code_cell (cell_dicts hello_world_cleared))
     = [Inr (JList [])]"
    by (simp add: hello_world_cleared_def cell_dicts_def is_code_cell_def)
  ultimately show ?thesis by (simp add: clear_hello_world)
qed

section \<open>Serializer and NotebookLoader: the round trip\<close>

lemma load_serialized_cell:
  "v1_cell_ok c \<Longrightarrow> load_cell acc (serialize_cell c) = Inr (acc @ [reloaded c])"
  by (cases c) (simp_all add: v1_cell_ok_def load_cell_def serialize_cell_def reloaded_def)

lemma load_serialized_cells:
  "list_all v1_cell_ok cs \<Longrightarrow>
   for_acc load_cell acc (map serialize_cell cs) = Inr (acc @ map reloaded cs)"
  by (induction cs arbitrary: acc) (simp_all add: load_serialized_cell)

lemma serialize_version:
  assumes "v1_version N = str_int major @ ''.'' @ str_int minor"
  shows "serialize N = Inr (JDict [(''cells'', JList (map serialize_cell (v1_cells N))),
                   (''metadata'', JDict []),
                   (''nbformat'', JInt major),
                   (''nbformat_minor'', JInt minor)])"
  unfolding serialize_def assms split_version
  by (simp add: seq_index_def py_int_str_int)

lemma reloaded_fields:
  "cell_id (reloaded c) = v1_id c" "source (reloaded c) = v1_source c"
  "cls (reloaded c) = v1_kind c"
  by (cases c; simp add: reloaded_def v2_CodeCell_def v2_MarkdownCell_def v1_kind_def)+

text \<open>
  C2. Round trip through the tree-of-records form. For a v1 notebook whose cells are
  markdown and code cells (each cell's \<^verbatim>\<open>cell_type\<close> names its class) and whose
  version is \<^verbatim>\<open>"major.minor"\<close> for two integers, \<open>serialize\<close> succeeds, splits the
  version on its period into the two integers \<^verbatim>\<open>nbformat\<close> and
  \<^verbatim>\<open>nbformat_minor\<close>, and loading the serialized dict as \<^verbatim>\<open>NotebookLoader.load\<close>
  does gives a notebook with the same cell identifiers, the same cell kinds in order,
  the same sources, and the same version string, rejoined with a period.
\<close>

theorem serialize_load_roundtrip:
  assumes "list_all v1_cell_ok (v1_cells N)"
    and "v1_version N = str_int major @ ''.'' @ str_int minor"
  shows "\<exists>d N'. serialize N = Inr d \<and> NotebookLoader_load rp d = Inr N' \<and>
           getitem_key d ''nbformat'' = Inr (JInt major) \<and>
           getitem_key d ''nbformat_minor'' = Inr (JInt minor) \<and>
           map cell_id (cells N') = map v1_id (v1_cells N) \<and>
           map cls (cells N') = map v1_kind (v1_cells N) \<and>
           map source (cells N') = map v1_source (v1_cells N) \<and>
           version N' = v1_version N"
proof -
  let ?d = "JDict [(''cells'', JList (map serialize_cell (v1_cells N))),
                   (''metadata'', JDict []),
                   (''nbformat'', JInt major),
                   (''nbformat_minor'', JInt minor)]"
  let ?N' = "\<lparr>version = str_int major @ ''.'' @ str_int minor,
              cells = map reloaded (v1_cells N)\<rparr>"
  have s: "serialize N = Inr ?d" by (rule serialize_version [OF assms(2)])
  have l: "NotebookLoader_load rp ?d = Inr ?N'"
    using load_serialized_cells [OF assms(1), of "[]"]
    by (simp add: NotebookLoader_load_def py_str_def)
  have "map cell_id (cells ?N') = map v1_id (v1_cells N)"
    "map cls (cells ?N') = map v1_kind (v1_cells N)"
    "map source (cells ?N') = map v1_source (v1_cells N)"
    "version ?N' = v1_version N"
    by (simp_all add: reloaded_fields assms(2) comp_def)
  with s l show ?thesis by simp
qed

lemma hello_v1_ok: "list_all v1_cell_ok (v1_cells hello_v1)"
  by (simp add: hello_v1_def v1_cell_ok_def)

lemma str_int_4: "str_int 4 = ''4''" "str_int 5 = ''5''"
  by (simp_all add: str_int_def str_nat.simps digit_char_def)

text \<open>The object model of \<^verbatim>\<open>hello-world.ipynb\<close>, serialized and loaded again.\<close>

theorem serialize_load_roundtrip_witness:
  "list_all v1_cell_ok (v1_cells hello_v1) \<and>
   v1_version hello_v1 = str_int 4 @ ''.'' @ str_int 5 \<and>
   (\<exists>d N'. serialize hello_v1 = Inr d \<and> NotebookLoader_load (\<lambda>v. []) d = Inr N' \<and>
           getitem_key d ''nbformat'' = Inr (JInt 4) \<and>
           getitem_key d ''nbformat_minor'' = Inr (JInt 5) \<and>
           map cell_id (cells N') = [JStr ''a9541506'', JStr ''b777420a'', JStr ''a23ab5ac''] \<and>
           map cls (cells N') = [MarkdownCell, CodeCell, MarkdownCell] \<and>
           map source (cells N') = map v1_source (v1_cells hello_v1) \<and>
           version N' = ''4.5'')"
proof -
  have v: "v1_version hello_v1 = str_int 4 @ ''.'' @ str_int 5"
    by (simp add: hello_v1_def str_int_4)
  from serialize_load_roundtrip [OF hello_v1_ok v, of "\<lambda>v. []"]
  obtain d N' where r: "serialize hello_v1 = Inr d" "NotebookLoader_load (\<lambda>v. []) d = Inr N'"
    "getitem_key d ''nbformat'' = Inr (JInt 4)" "getitem_key d ''nbformat_minor'' = Inr (JInt 5)"
    "map cell_id (cells N') = map v1_id (v1_cells hello_v1)"
    "map cls (cells N') = map v1_kind (v1_cells hello_v1)"
    "map source (cells N') = map v1_source (v1_cells hello_v1)"
    "version N' = v1_version hello_v1"
    by blast
  have "map v1_id (v1_cells hello_v1) = [JStr ''a9541506'', JStr ''b777420a'', JStr ''a23ab5ac'']"
    "map v1_kind (v1_cells hello_v1) = [MarkdownCell, CodeCell, MarkdownCell]"
    "v1_version hello_v1 = ''4.5''"
    by (simp_all add: hello_v1_def v1_kind_def)
  with r have "serialize hello_v1 = Inr d \<and> NotebookLoader_load (\<lambda>v. []) d = Inr N' \<and>
           getitem_key d ''nbformat'' = Inr (JInt 4) \<and>
           getitem_key d ''nbformat_minor'' = Inr (JInt 5) \<and>
           map cell_id (cells N') = [JStr ''a9541506'', JStr ''b777420a'', JStr ''a23ab5ac''] \<and>
           map cls (cells N') = [MarkdownCell, CodeCell, MarkdownCell] \<and>
           map source (cells N') = map v1_source (v1_cells hello_v1) \<and>
           version N' = ''4.5''"
    by simp
  then show ?thesis using hello_v1_ok v by (intro conjI exI [of _ d] exI [of _ N']) simp_all
qed

section \<open>The variant tag of a cell\<close>

lemma isinstance_CodeCell: "isinstance c CodeCell"
  by (cases "cls c") (simp_all add: isinstance_def)

lemma retag_apply:
  "retag h b a = (if a = b then map_option (\<lambda>c. c\<lparr>cls := MarkdownCell\<rparr>) (h a) else h a)"
  by (cases "h b") (simp_all add: retag_def isinstance_CodeCell)

lemma foldl_retag_apply:
  "foldl retag h as a =
     (if a \<in> set as then map_option (\<lambda>c. c\<lparr>cls := MarkdownCell\<rparr>) (h a) else h a)"
proof (induction as arbitrary: h)
  case Nil
  show ?case by simp
next
  case (Cons b as)
  let ?f = "map_option (\<lambda>c. c\<lparr>cls := MarkdownCell\<rparr>)"
  have r: "retag h b a = (if a = b then ?f (h a) else h a)" by (rule retag_apply)
  have "foldl retag h (b # as) a = foldl retag (retag h b) as a" by simp
  also have "\<dots> = (if a \<in> set as then ?f (retag h b a) else retag h b a)"
    by (rule Cons.IH)
  also have "\<dots> = (if a \<in> set (b # as) then ?f (h a) else h a)"
    unfolding r by (cases "h a") auto
  finally show ?case .
qed

lemma markdownize_cell:
  assumes "h a = Some c"
  shows "fst (markdownize h (Markdownizer_init nb)) a =
           Some (if a \<in> set (ref_cells nb) then c\<lparr>cls := MarkdownCell\<rparr> else c)"
  using assms by (simp add: markdownize_def Markdownizer_init_def foldl_retag_apply)

lemma clear_cell_type:
  assumes "clear_cell dic = Inr d"
  shows "getitem_key d ''cell_type'' = getitem_key dic ''cell_type''"
proof -
  from assms obtain kvs where dic: "dic = JDict kvs" using clear_cell_dict by blast
  show ?thesis
  proof (cases "map_of kvs ''cell_type''")
    case None
    then show ?thesis using assms dic by (simp add: clear_cell_missing)
  next
    case (Some t)
    show ?thesis
    proof (cases "t = JStr ''code''")
      case True
      with Some have ct: "map_of kvs ''cell_type'' = Some (JStr ''code'')" by simp
      from assms have d: "d = JDict (AList.update ''outputs'' (JList []) (AList.update ''execution_count'' JNull kvs))"
        unfolding dic clear_cell_code [OF ct] by simp
      show ?thesis unfolding d dic by (simp add: cleared_lookups)
    next
      case False
      from assms have "d = dic" unfolding dic clear_cell_other [OF Some False] by simp
      then show ?thesis by simp
    qed
  qed
qed

lemma for_each_map:
  assumes "\<And>x y. x \<in> set xs \<Longrightarrow> f x = Inr y \<Longrightarrow> g y = g x"
    and "for_each f xs = Inr ys"
  shows "map g ys = map g xs"
  using assms
proof (induction xs arbitrary: ys)
  case Nil
  then show ?case by simp
next
  case (Cons x xs)
  from Cons.prems(2) obtain y zs where
    y: "f x = Inr y" and zs: "for_each f xs = Inr zs" and ys: "ys = y # zs"
    by (auto simp: and_then_eq_Inr)
  have "g y = g x" by (rule Cons.prems(1) [OF _ y]) simp
  moreover have "map g zs = map g xs"
    by (rule Cons.IH [OF _ zs], rule Cons.prems(1)) simp_all
  ultimately show ?case by (simp add: ys)
qed

lemma clear_outputs_cell_types:
  assumes "clear_outputs N = Inr N'"
  shows "cell_types N' = cell_types N"
proof -
  from assms obtain kvs cs dics dics' where
    N: "N = JDict kvs" and c: "map_of kvs ''cells'' = Some cs"
    and it: "py_iter cs = Inr dics" and fe: "for_each clear_cell dics = Inr dics'"
    and N': "N' = store_cells N cs dics'"
    by (rule clear_outputs_unfold)
  show ?thesis
  proof (cases "\<exists>ds. cs = JList ds")
    case True
    then obtain ds where ds: "cs = JList ds" by blast
    with it have dd: "dics = ds" by simp
    have N'': "N' = JDict (AList.update ''cells'' (JList dics') kvs)"
      by (simp add: N' store_cells_def N ds)
    have 1: "cell_dicts N' = dics'" by (simp add: N'' cell_dicts_def update_conv')
    have 2: "cell_dicts N = dics" by (simp add: N cell_dicts_def c ds dd)
    have "map (\<lambda>d. getitem_key d ''cell_type'') dics' = map (\<lambda>d. getitem_key d ''cell_type'') dics"
      by (rule for_each_map [OF _ fe]) (rule clear_cell_type)
    then show ?thesis by (simp add: cell_types_def 1 2)
  next
    case False
    then have "N' = N" by (cases cs) (simp_all add: N' store_cells_def N)
    then show ?thesis by simp
  qed
qed

text \<open>
  C9, as the code has it. The variant tag of a cell is preserved by every operation
  except \<^verbatim>\<open>Markdownizer.markdownize\<close>: that transform re-tags, in place, every cell
  of its notebook as \<^verbatim>\<open>MarkdownCell\<close> (a code cell becomes a markdown cell, a
  markdown cell stays one) and leaves the identifier, source and execution count of the
  cell, and every cell outside the notebook, as they were. \<^verbatim>\<open>remove_markdown_cells\<close>
  changes no cell object, and \<^verbatim>\<open>clear_outputs\<close> keeps the \<^verbatim>\<open>cell_type\<close> of every
  cell dict.
\<close>

theorem variant_tag_preserved_except_markdownize:
  "(h a = Some c \<longrightarrow>
      fst (markdownize h (Markdownizer_init nb)) a =
        Some (if a \<in> set (ref_cells nb) then c\<lparr>cls := MarkdownCell\<rparr> else c)) \<and>
   fst (remove_markdown_cells h (MarkdownLesser_init nb)) = h \<and>
   (clear_outputs N = Inr N' \<longrightarrow> cell_types N' = cell_types N)"
  by (simp add: markdownize_cell remove_markdown_cells_def clear_outputs_cell_types)

text \<open>
  C9 as stated fails: the code cell at address 1 was built as a \<^verbatim>\<open>CodeCell\<close>, and
  after \<^verbatim>\<open>markdownize\<close> the same object is a \<^verbatim>\<open>MarkdownCell\<close>.
\<close>

theorem markdownize_changes_kind:
  "map_option cls (store0 1) = Some CodeCell \<and>
   map_option cls (fst (markdownize store0 (Markdownizer_init nb0)) 1) = Some MarkdownCell"
  by (simp add: store0_def nb0_def markdownize_def Markdownizer_init_def retag_def
      isinstance_def v2_CodeCell_def v2_MarkdownCell_def)

text \<open>The same store and notebook, and the sample notebook dict, for the theorem above.\<close>

theorem variant_tag_preserved_except_markdownize_witness:
  "store0 1 = Some (v2_CodeCell (JStr ''b777420a'') (JList [JStr ''print(\"Hello world!\")'']) (JInt 1)) \<and>
   fst (markdownize store0 (Markdownizer_init nb0)) 1 =
     Some \<lparr>cls = MarkdownCell, cell_id = JStr ''b777420a'',
           source = JList [JStr ''print(\"Hello world!\")''], execution_count = JInt 1\<rparr> \<and>
   fst (remove_markdown_cells store0 (MarkdownLesser_init nb0)) = store0 \<and>
   clear_outputs hello_world = Inr hello_world_cleared \<and>
   cell_types hello_world_cleared = cell_types hello_world"
proof -
  let ?c = "v2_CodeCell (JStr ''b777420a'') (JList [JStr ''print(\"Hello world!\")'']) (JInt 1)"
  have s: "store0 1 = Some ?c" by (simp add: store0_def)
  have c: "clear_outputs hello_world = Inr hello_world_cleared" by (rule clear_hello_world)
  from variant_tag_preserved_except_markdownize
         [of store0 1 ?c nb0 hello_world hello_world_cleared] s c
  have "fst (markdownize store0 (Markdownizer_init nb0)) 1 =
          Some (if 1 \<in> set (ref_cells nb0) then ?c\<lparr>cls := MarkdownCell\<rparr> else ?c)"
    and "fst (remove_markdown_cells store0 (MarkdownLesser_init nb0)) = store0"
    and "cell_types hello_world_cleared = cell_types hello_world"
    by simp_all
  then show ?thesis using s c by (simp add: nb0_def v2_CodeCell_def)
qed

section \<open>The emitters, the extractors and the script loader on concrete notebooks\<close>

lemmas sample_defs = ipynb_of_def markdown_dict_def code_dict_def stream_output_def
  error_output_def image_output_def

text \<open>
  C1 fails on the code. The notebook with a markdown cell \<^verbatim>\<open>"0"\<close> (source
  \<^verbatim>\<open>["Hi"]\<close>) and a code cell \<^verbatim>\<open>"1"\<close> (source \<^verbatim>\<open>["x=1"]\<close>) is written as five
  lines; the loader's loops run while \<^verbatim>\<open>counter < l - 1\<close>, never read the last line,
  and return the code cell with an empty source.
\<close>

theorem percent_loader_drops_last_line:
  "to_py_percent hi_x1_v1 = Inr ''# %% [markdown]\<newline># Hi\<newline>\<newline># %%\<newline>x=1'' \<and>
   readlines ''# %% [markdown]\<newline># Hi\<newline>\<newline># %%\<newline>x=1'' =
     [''# %% [markdown]\<newline>'', ''# Hi\<newline>'', ''\<newline>'', ''# %%\<newline>'', ''x=1''] \<and>
   PyPercentLoader_load
     [''# %% [markdown]\<newline>'', ''# Hi\<newline>'', ''\<newline>'', ''# %%\<newline>'', ''x=1''] ''4.5'' =
     \<lparr>version = ''4.5'',
      cells = [v2_MarkdownCell (JInt 0) (JList [JStr ''Hi'']),
               v2_CodeCell (JInt 1) (JList []) (JInt 1)]\<rparr>"
proof (intro conjI)
  show "to_py_percent hi_x1_v1 = Inr ''# %% [markdown]\<newline># Hi\<newline>\<newline># %%\<newline>x=1''"
    by (simp add: to_py_percent_def hi_x1_v1_def py_percent_cell_def list_pop_def)
  show "readlines ''# %% [markdown]\<newline># Hi\<newline>\<newline># %%\<newline>x=1'' =
     [''# %% [markdown]\<newline>'', ''# Hi\<newline>'', ''\<newline>'', ''# %%\<newline>'', ''x=1'']"
    by simp
  show "PyPercentLoader_load
     [''# %% [markdown]\<newline>'', ''# Hi\<newline>'', ''\<newline>'', ''# %%\<newline>'', ''x=1''] ''4.5'' =
     \<lparr>version = ''4.5'',
      cells = [v2_MarkdownCell (JInt 0) (JList [JStr ''Hi'']),
               v2_CodeCell (JInt 1) (JList []) (JInt 1)]\<rparr>"
    by code_simp
qed

lemma v1_of_hi_x1:
  "v1_Notebook rp hi_x1 = Inr \<lparr>v1_version = ''4.5'',
     v1_cells = [v1_MarkdownCell (JStr ''markdown'') (JStr ''a'') (JList [JStr ''Hi\<newline>'']),
                 v1_CodeCell (JStr ''b'') (JStr ''code'') (JInt 1) (JList [JStr ''x=1''])]\<rparr>"
  by (simp add: v1_Notebook_def hi_x1_def sample_defs v1_add_cell_def v1_CodeCell_init_def
      v1_MarkdownCell_init_def py_str_def str_int_def str_nat.simps digit_char_def)

text \<open>
  C3 holds for \<^verbatim>\<open>PyPercentSerializer.to_py_percent\<close> and fails for \<^verbatim>\<open>to_percent\<close>:
  the first appends the separator as one item and pops it, the second appends two
  newline items and pops one, so its result ends with a newline.
\<close>

theorem to_percent_trailing_newline:
  "to_percent hi_x1 = Inr ''# %% [markdown]\<newline># Hi\<newline>\<newline>\<newline># %%\<newline>x=1\<newline>'' \<and>
   and_then (v1_Notebook rp hi_x1) to_py_percent =
     Inr ''# %% [markdown]\<newline># Hi\<newline>\<newline>\<newline># %%\<newline>x=1''"
proof
  show "to_percent hi_x1 = Inr ''# %% [markdown]\<newline># Hi\<newline>\<newline>\<newline># %%\<newline>x=1\<newline>''"
    by (simp add: to_percent_def hi_x1_def sample_defs percent_cell_def list_pop_def)
  show "and_then (v1_Notebook rp hi_x1) to_py_percent =
     Inr ''# %% [markdown]\<newline># Hi\<newline>\<newline>\<newline># %%\<newline>x=1''"
    by (simp add: v1_of_hi_x1 to_py_percent_def py_percent_cell_def list_pop_def)
qed

lemma v1_of_minimal: "v1_Notebook rp minimal = Inr \<lparr>v1_version = ''4.5'', v1_cells = []\<rparr>"
  by (simp add: v1_Notebook_def minimal_def py_str_def str_int_def str_nat.simps digit_char_def)

text \<open>
  C4 fails on the code: on \<^verbatim>\<open>samples/minimal.ipynb\<close> (no cells) both emitters reach
  \<^verbatim>\<open>ans.pop()\<close> with an empty list, which raises \<^verbatim>\<open>IndexError\<close>.
\<close>

theorem to_percent_empty_raises:
  "to_percent minimal = Inl IndexError \<and>
   and_then (v1_Notebook rp minimal) to_py_percent = Inl IndexError"
proof
  show "to_percent minimal = Inl IndexError"
    by (simp add: to_percent_def minimal_def list_pop_def)
  show "and_then (v1_Notebook rp minimal) to_py_percent = Inl IndexError"
    by (simp add: v1_of_minimal to_py_percent_def list_pop_def)
qed

text \<open>
  C5 fails on the code: \<^verbatim>\<open>get_stream\<close> indexes \<^verbatim>\<open>outputs[0]\<close> and \<^verbatim>\<open>text[0]\<close>.
  A code cell without outputs raises \<^verbatim>\<open>IndexError\<close>, and of two stream outputs with
  three lines in all only the first line of the first output is returned.
\<close>

theorem get_stream_first_only:
  "get_stream rp no_output_nb True False = Inl IndexError \<and>
   get_stream rp two_streams_nb True False = Inr ''one\<newline>''"
proof
  show "get_stream rp no_output_nb True False = Inl IndexError"
    by (simp add: get_stream_def no_output_nb_def sample_defs stream_cell_def stream_pick_def
        first_output_def seq_index_def)
  show "get_stream rp two_streams_nb True False = Inr ''one\<newline>''"
    by (simp add: get_stream_def two_streams_nb_def sample_defs stream_cell_def stream_pick_def
        first_output_def seq_index_def py_str_def)
qed

text \<open>
  C6 fails on the code: \<^verbatim>\<open>get_exceptions\<close> looks at \<^verbatim>\<open>outputs[0]\<close> only. A cell
  whose second output is the error yields no exception, whatever builds the exception
  values, and a code cell without outputs raises \<^verbatim>\<open>IndexError\<close>.
\<close>

theorem get_exceptions_first_only:
  "get_exceptions mk late_error_nb = Inr [] \<and>
   get_exceptions mk no_output_nb = Inl IndexError"
proof
  show "get_exceptions mk late_error_nb = Inr []"
    by (simp add: get_exceptions_def late_error_nb_def sample_defs exception_cell_def
        first_output_def seq_index_def)
  show "get_exceptions mk no_output_nb = Inl IndexError"
    by (simp add: get_exceptions_def no_output_nb_def sample_defs exception_cell_def
        first_output_def seq_index_def)
qed

text \<open>
  C7 fails on the code: \<^verbatim>\<open>get_images\<close> reads \<^verbatim>\<open>outputs[0]['data']\<close> without
  checking that the key is there. A cell that prints before it shows an image, and the
  sample \<^verbatim>\<open>hello-world.ipynb\<close> itself, raise \<^verbatim>\<open>KeyError\<close>, whatever the decoder
  is. When the image is the first output, the result is the one decoded payload.
\<close>

theorem get_images_first_only:
  "get_images decode late_image_nb = Inl KeyError \<and>
   get_images decode hello_world = Inl KeyError \<and>
   get_images decode image_nb = and_then (decode (JStr ''iVBORw0KGgo='')) (\<lambda>arr. Inr [arr])"
proof (intro conjI)
  show "get_images decode late_image_nb = Inl KeyError"
    by (simp add: get_images_def late_image_nb_def sample_defs image_cell_def
        first_output_def seq_index_def)
  show "get_images decode hello_world = Inl KeyError"
    by (simp add: get_images_def hello_world_def image_cell_def first_output_def seq_index_def)
  show "get_images decode image_nb = and_then (decode (JStr ''iVBORw0KGgo='')) (\<lambda>arr. Inr [arr])"
    by (cases "decode (JStr ''iVBORw0KGgo='')")
       (simp_all add: get_images_def image_nb_def sample_defs image_cell_def
        first_output_def seq_index_def)
qed

lemma v1_of_hello_world: "v1_Notebook rp hello_world = Inr hello_v1"
  by (simp add: v1_Notebook_def hello_world_def hello_v1_def v1_add_cell_def v1_CodeCell_init_def
      v1_MarkdownCell_init_def py_str_def str_int_def str_nat.simps digit_char_def)

text \<open>
  C10 fails on the code: on \<^verbatim>\<open>hello-world.ipynb\<close> the string of \<^verbatim>\<open>to_percent\<close> is
  the string of \<^verbatim>\<open>to_py_percent\<close> followed by one more newline.
\<close>

theorem to_percent_differs_from_to_py_percent:
  "to_percent hello_world =
     Inr (''# %% [markdown]\<newline># Hello world!\<newline># ============\<newline># Print `Hello world!`:\<newline>\<newline># %%\<newline>print(\"Hello world!\")\<newline>\<newline># %% [markdown]\<newline># Goodbye!'' @ ''\<newline>'') \<and>
   and_then (v1_Notebook rp hello_world) to_py_percent =
     Inr ''# %% [markdown]\<newline># Hello world!\<newline># ============\<newline># Print `Hello world!`:\<newline>\<newline># %%\<newline>print(\"Hello world!\")\<newline>\<newline># %% [markdown]\<newline># Goodbye!'' \<and>
   to_percent hello_world \<noteq> and_then (v1_Notebook rp hello_world) to_py_percent"
proof -
  have a: "to_percent hello_world =
     Inr (''# %% [markdown]\<newline># Hello world!\<newline># ============\<newline># Print `Hello world!`:\<newline>\<newline># %%\<newline>print(\"Hello world!\")\<newline>\<newline># %% [markdown]\<newline># Goodbye!'' @ ''\<newline>'')"
    by (simp add: to_percent_def hello_world_def percent_cell_def list_pop_def)
  have b: "and_then (v1_Notebook rp hello_world) to_py_percent =
     Inr ''# %% [markdown]\<newline># Hello world!\<newline># ============\<newline># Print `Hello world!`:\<newline>\<newline># %%\<newline>print(\"Hello world!\")\<newline>\<newline># %% [markdown]\<newline># Goodbye!''"
    by (simp add: v1_of_hello_world hello_v1_def to_py_percent_def py_percent_cell_def list_pop_def)
  have "to_percent hello_world \<noteq> and_then (v1_Notebook rp hello_world) to_py_percent"
    unfolding a b by simp
  with a b show ?thesis by blast
qed

end
